theory Spec2Isabelle
  imports Main "HOL-Library.AList" "HOL-Library.Char_ord" "HOL-Library.List_Lexorder"
begin

section \<open>Python values used by the billing program\<close>

text \<open>
  The program (\<^verbatim>\<open>bs2.py\<close>) computes with Python's \<^verbatim>\<open>decimal.Decimal\<close> under the default
  context: precision 28, rounding ROUND_HALF_EVEN, Emin -999999, Emax 999999, and the
  traps InvalidOperation, DivisionByZero and Overflow (a trapped signal raises).
  A Decimal is a sign, a coefficient and an exponent, or an infinity, or a quiet or
  signalling NaN with a diagnostic payload (0 stands for no payload).
  Strings are lists of characters read as the code points 0..255.
\<close>

datatype py_error = InvalidOperation | DivisionByZero | Overflow | TclError

datatype decimal =
    Finite bool nat int
  | Infinity bool
  | NaN bool nat
  | sNaN bool nat

definition prec :: int where "prec = 28"
definition Emax :: int where "Emax = 999999"
definition Emin :: int where "Emin = - 999999"
definition Etiny :: int where "Etiny = Emin - prec + 1"
definition Etop :: int where "Etop = Emax - prec + 1"

subsection \<open>Digits\<close>

definition digit_char :: "nat \<Rightarrow> char" where
  "digit_char d = ''0123456789'' ! d"

fun digits_of :: "nat \<Rightarrow> string" where
  "digits_of n = (if n < 10 then [digit_char n] else digits_of (n div 10) @ [digit_char (n mod 10)])"

declare digits_of.simps [simp del]

definition ndigits :: "nat \<Rightarrow> nat" where
  "ndigits n = length (digits_of n)"

definition is_digit :: "char \<Rightarrow> bool" where
  "is_digit c = (c \<in> set ''0123456789'')"

definition digit_val :: "char \<Rightarrow> nat" where
  "digit_val c = of_char c - 48"

fun nat_of_digits :: "nat \<Rightarrow> string \<Rightarrow> nat" where
  "nat_of_digits acc [] = acc"
| "nat_of_digits acc (c # cs) = nat_of_digits (10 * acc + digit_val c) cs"

subsection \<open>Rounding a coefficient that loses its last k digits\<close>

definition round_half_up :: "nat \<Rightarrow> nat \<Rightarrow> nat" where
  "round_half_up c k = c div 10 ^ k + (if 10 ^ k \<le> 2 * (c mod 10 ^ k) then 1 else 0)"

definition round_half_even :: "nat \<Rightarrow> nat \<Rightarrow> nat" where
  "round_half_even c k =
     (let q = c div 10 ^ k; r = c mod 10 ^ k
      in if 10 ^ k < 2 * r \<or> (10 ^ k = 2 * r \<and> odd q) then q + 1 else q)"

subsection \<open>Rounding a result to the context\<close>

definition fix_nan :: "bool \<Rightarrow> nat \<Rightarrow> decimal" where
  "fix_nan s p = (if prec < int (ndigits p) then NaN s (p mod 10 ^ nat prec) else NaN s p)"

definition dec_fix :: "bool \<Rightarrow> nat \<Rightarrow> int \<Rightarrow> py_error + decimal" where
  "dec_fix s c e =
     (if c = 0 then Inr (Finite s 0 (min (max e Etiny) Emax))
      else if Etop < int (ndigits c) + e - prec then Inl Overflow
      else
        let exp_min = max (int (ndigits c) + e - prec) Etiny in
        if e < exp_min then
          (let c' = round_half_even c (nat (exp_min - e)) in
           if prec < int (ndigits c') then
             (if Etop < exp_min + 1 then Inl Overflow else Inr (Finite s (c' div 10) (exp_min + 1)))
           else Inr (Finite s c' exp_min))
        else Inr (Finite s c e))"

subsection \<open>Arithmetic\<close>

fun dec_mul :: "decimal \<Rightarrow> decimal \<Rightarrow> py_error + decimal" where
  "dec_mul (sNaN s p) b = Inl InvalidOperation"
| "dec_mul a (sNaN s p) = Inl InvalidOperation"
| "dec_mul (NaN s p) b = Inr (fix_nan s p)"
| "dec_mul a (NaN s p) = Inr (fix_nan s p)"
| "dec_mul (Infinity s1) (Infinity s2) = Inr (Infinity (s1 \<noteq> s2))"
| "dec_mul (Infinity s1) (Finite s2 c2 e2) =
     (if c2 = 0 then Inl InvalidOperation else Inr (Infinity (s1 \<noteq> s2)))"
| "dec_mul (Finite s1 c1 e1) (Infinity s2) =
     (if c1 = 0 then Inl InvalidOperation else Inr (Infinity (s1 \<noteq> s2)))"
| "dec_mul (Finite s1 c1 e1) (Finite s2 c2 e2) = dec_fix (s1 \<noteq> s2) (c1 * c2) (e1 + e2)"

fun div_strip :: "nat \<Rightarrow> nat \<Rightarrow> int \<Rightarrow> nat \<times> int" where
  "div_strip 0 c e = (c, e)"
| "div_strip (Suc n) c e = (if c mod 10 = 0 then div_strip n (c div 10) (e + 1) else (c, e))"

fun dec_div :: "decimal \<Rightarrow> decimal \<Rightarrow> py_error + decimal" where
  "dec_div (sNaN s p) b = Inl InvalidOperation"
| "dec_div a (sNaN s p) = Inl InvalidOperation"
| "dec_div (NaN s p) b = Inr (fix_nan s p)"
| "dec_div a (NaN s p) = Inr (fix_nan s p)"
| "dec_div (Infinity s1) (Infinity s2) = Inl InvalidOperation"
| "dec_div (Infinity s1) (Finite s2 c2 e2) = Inr (Infinity (s1 \<noteq> s2))"
| "dec_div (Finite s1 c1 e1) (Infinity s2) = Inr (Finite (s1 \<noteq> s2) 0 Etiny)"
| "dec_div (Finite s1 c1 e1) (Finite s2 c2 e2) =
     (if c2 = 0 then (if c1 = 0 then Inl InvalidOperation else Inl DivisionByZero)
      else if c1 = 0 then dec_fix (s1 \<noteq> s2) 0 (e1 - e2)
      else
        let shift = int (ndigits c2) - int (ndigits c1) + prec + 1;
            e = e1 - e2 - shift;
            n = (if 0 \<le> shift then c1 * 10 ^ nat shift else c1);
            d = (if 0 \<le> shift then c2 else c2 * 10 ^ nat (- shift));
            q = n div d
        in if n mod d \<noteq> 0 then dec_fix (s1 \<noteq> s2) (if q mod 5 = 0 then q + 1 else q) e
           else (case div_strip (nat (e1 - e2 - e)) q e of
                   (q', e') \<Rightarrow> dec_fix (s1 \<noteq> s2) q' e'))"

definition sval :: "bool \<Rightarrow> nat \<Rightarrow> int" where
  "sval s c = (if s then - int c else int c)"

fun dec_add :: "decimal \<Rightarrow> decimal \<Rightarrow> py_error + decimal" where
  "dec_add (sNaN s p) b = Inl InvalidOperation"
| "dec_add a (sNaN s p) = Inl InvalidOperation"
| "dec_add (NaN s p) b = Inr (fix_nan s p)"
| "dec_add a (NaN s p) = Inr (fix_nan s p)"
| "dec_add (Infinity s1) (Infinity s2) =
     (if s1 \<noteq> s2 then Inl InvalidOperation else Inr (Infinity s1))"
| "dec_add (Infinity s1) (Finite s2 c2 e2) = Inr (Infinity s1)"
| "dec_add (Finite s1 c1 e1) (Infinity s2) = Inr (Infinity s2)"
| "dec_add (Finite s1 c1 e1) (Finite s2 c2 e2) =
     (let e = min e1 e2;
          v = sval s1 c1 * 10 ^ nat (e1 - e) + sval s2 c2 * 10 ^ nat (e2 - e)
      in dec_fix (if v = 0 then s1 \<and> s2 else v < 0) (nat \<bar>v\<bar>) e)"

fun copy_negate :: "decimal \<Rightarrow> decimal" where
  "copy_negate (Finite s c e) = Finite (\<not> s) c e"
| "copy_negate (Infinity s) = Infinity (\<not> s)"
| "copy_negate (NaN s p) = NaN (\<not> s) p"
| "copy_negate (sNaN s p) = sNaN (\<not> s) p"

fun dec_sub :: "decimal \<Rightarrow> decimal \<Rightarrow> py_error + decimal" where
  "dec_sub (sNaN s p) b = Inl InvalidOperation"
| "dec_sub a (sNaN s p) = Inl InvalidOperation"
| "dec_sub (NaN s p) b = Inr (fix_nan s p)"
| "dec_sub a (NaN s p) = Inr (fix_nan s p)"
| "dec_sub a b = dec_add a (copy_negate b)"

text \<open>\<^verbatim>\<open>a.quantize(q, rounding=ROUND_HALF_UP)\<close>: the value of \<open>a\<close> at the exponent of \<open>q\<close>.\<close>

definition rescale :: "nat \<Rightarrow> int \<Rightarrow> int \<Rightarrow> nat" where
  "rescale c e t = (if t \<le> e then c * 10 ^ nat (e - t) else round_half_up c (nat (t - e)))"

fun quantize :: "decimal \<Rightarrow> decimal \<Rightarrow> py_error + decimal" where
  "quantize (sNaN s p) b = Inl InvalidOperation"
| "quantize a (sNaN s p) = Inl InvalidOperation"
| "quantize (NaN s p) b = Inr (fix_nan s p)"
| "quantize a (NaN s p) = Inr (fix_nan s p)"
| "quantize (Infinity s1) (Infinity s2) = Inr (Infinity s1)"
| "quantize (Infinity s1) (Finite s2 c2 t) = Inl InvalidOperation"
| "quantize (Finite s c e) (Infinity s2) = Inl InvalidOperation"
| "quantize (Finite s c e) (Finite s2 c2 t) =
     (if \<not> (Etiny \<le> t \<and> t \<le> Emax) then Inl InvalidOperation
      else if c = 0 then dec_fix s 0 t
      else if Emax < e + int (ndigits c) - 1 then Inl InvalidOperation
      else if prec < e + int (ndigits c) - 1 - t + 1 then Inl InvalidOperation
      else
        let c' = rescale c e t in
        if Emax < t + int (ndigits c') - 1 then Inl InvalidOperation
        else if prec < int (ndigits c') then Inl InvalidOperation
        else dec_fix s c' t)"


subsection \<open>Conversion to and from strings\<close>

definition sign_str :: "bool \<Rightarrow> string" where
  "sign_str s = (if s then ''-'' else '''')"

definition payload_str :: "nat \<Rightarrow> string" where
  "payload_str p = (if p = 0 then '''' else digits_of p)"

text \<open>\<^verbatim>\<open>str(d)\<close>, which is also \<^verbatim>\<open>format(d, '')\<close>, the text an f-string puts for \<^verbatim>\<open>{d}\<close>.\<close>

fun dec_str :: "decimal \<Rightarrow> string" where
  "dec_str (Infinity s) = sign_str s @ ''Infinity''"
| "dec_str (NaN s p) = sign_str s @ ''NaN'' @ payload_str p"
| "dec_str (sNaN s p) = sign_str s @ ''sNaN'' @ payload_str p"
| "dec_str (Finite s c e) =
     (let ds = digits_of c;
          n = int (length ds);
          leftdigits = e + n;
          dotplace = (if e \<le> 0 \<and> - 6 < leftdigits then leftdigits else 1);
          intpart = (if dotplace \<le> 0 then ''0''
                     else if n \<le> dotplace then ds @ replicate (nat (dotplace - n)) CHR ''0''
                     else take (nat dotplace) ds);
          fracpart = (if dotplace \<le> 0 then ''.'' @ replicate (nat (- dotplace)) CHR ''0'' @ ds
                      else if n \<le> dotplace then ''''
                      else ''.'' @ drop (nat dotplace) ds);
          ex = (if leftdigits = dotplace then ''''
                else ''E'' @ (if leftdigits - dotplace < 0 then ''-'' else ''+'')
                       @ digits_of (nat \<bar>leftdigits - dotplace\<bar>))
      in sign_str s @ intpart @ fracpart @ ex)"

definition is_space :: "char \<Rightarrow> bool" where
  "is_space c = (of_char c \<in> {9::nat, 10, 11, 12, 13, 28, 29, 30, 31, 32, 133, 160})"

definition strip :: "string \<Rightarrow> string" where
  "strip s = rev (dropWhile is_space (rev (dropWhile is_space s)))"

definition lower :: "char \<Rightarrow> char" where
  "lower c =
     (case map_of (zip ''ABCDEFGHIJKLMNOPQRSTUVWXYZ'' ''abcdefghijklmnopqrstuvwxyz'') c of
        None \<Rightarrow> c
      | Some l \<Rightarrow> l)"

text \<open>
  The numeric-string grammar of \<^verbatim>\<open>Decimal(str)\<close>: surrounding whitespace and every
  underscore are dropped; then an optional sign and either digits with an optional
  point and an optional exponent, or \<^verbatim>\<open>Inf\<close>, \<^verbatim>\<open>Infinity\<close>, \<^verbatim>\<open>NaN\<close> or \<^verbatim>\<open>sNaN\<close> with optional
  payload digits, in any letter case. The conversion is exact; it raises
  InvalidOperation on any other text, and on a number outside the largest context
  (exponents beyond \<open>10^18 - 1\<close>).
\<close>

definition MAX_EMAX :: int where "MAX_EMAX = 999999999999999999"
definition MIN_ETINY :: int where "MIN_ETINY = - 1999999999999999997"

definition parse_exponent :: "string \<Rightarrow> int option" where
  "parse_exponent s =
     (case s of
        [] \<Rightarrow> Some 0
      | c # r \<Rightarrow>
          if lower c \<noteq> CHR ''e'' then None
          else
            let (neg, ds) = (case r of
                               [] \<Rightarrow> (False, [])
                             | d # r' \<Rightarrow> if d = CHR ''-'' then (True, r')
                                          else if d = CHR ''+'' then (False, r') else (False, r))
            in if ds = [] \<or> \<not> list_all is_digit ds then None
               else Some (if neg then - int (nat_of_digits 0 ds) else int (nat_of_digits 0 ds)))"

definition parse_number :: "bool \<Rightarrow> string \<Rightarrow> decimal option" where
  "parse_number s body =
     (let ip = takeWhile is_digit body;
          r1 = dropWhile is_digit body;
          (fp, r2) = (case r1 of
                        [] \<Rightarrow> ([], [])
                      | c # r \<Rightarrow> if c = CHR ''.'' then (takeWhile is_digit r, dropWhile is_digit r)
                                 else ([], r1))
      in if ip = [] \<and> fp = [] then None
         else (case parse_exponent r2 of
                 None \<Rightarrow> None
               | Some x \<Rightarrow>
                   let c = nat_of_digits 0 (ip @ fp);
                       e = x - int (length fp)
                   in if c = 0 then (if MIN_ETINY \<le> e \<and> e \<le> MAX_EMAX then Some (Finite s 0 e) else None)
                      else if MAX_EMAX < e + int (ndigits c) - 1 \<or> e < MIN_ETINY then None
                      else Some (Finite s c e)))"

definition Decimal :: "string \<Rightarrow> py_error + decimal" where
  "Decimal str =
     (let t = filter (\<lambda>c. c \<noteq> CHR ''_'') (strip str);
          (s, body) = (case t of
                         [] \<Rightarrow> (False, [])
                       | c # r \<Rightarrow> if c = CHR ''-'' then (True, r)
                                  else if c = CHR ''+'' then (False, r) else (False, t));
          low = map lower body;
          res =
            (if low = ''inf'' \<or> low = ''infinity'' then Some (Infinity s)
             else if take 3 low = ''nan'' \<and> list_all is_digit (drop 3 low)
               then Some (NaN s (nat_of_digits 0 (drop 3 low)))
             else if take 4 low = ''snan'' \<and> list_all is_digit (drop 4 low)
               then Some (sNaN s (nat_of_digits 0 (drop 4 low)))
             else parse_number s body)
      in case res of None \<Rightarrow> Inl InvalidOperation | Some d \<Rightarrow> Inr d)"

text \<open>\<^verbatim>\<open>Decimal(n)\<close> for a Python int.\<close>

definition Decimal_int :: "int \<Rightarrow> decimal" where
  "Decimal_int n = Finite (n < 0) (nat \<bar>n\<bar>) 0"

subsection \<open>Strings and integers\<close>

text \<open>\<^verbatim>\<open>str(n)\<close> for a Python int.\<close>

definition str_int :: "int \<Rightarrow> string" where
  "str_int n = (if n < 0 then ''-'' else []) @ digits_of (nat \<bar>n\<bar>)"

text \<open>\<^verbatim>\<open>s.split(sep)\<close> for a separator of one character.\<close>

fun split :: "char \<Rightarrow> string \<Rightarrow> string list" where
  "split sep [] = [[]]"
| "split sep (c # cs) =
     (if c = sep then [] # split sep cs
      else (case split sep cs of [] \<Rightarrow> [[c]] | w # ws \<Rightarrow> (c # w) # ws))"

definition startswith :: "string \<Rightarrow> string \<Rightarrow> bool" where
  "startswith s p = (take (length p) s = p)"

definition endswith :: "string \<Rightarrow> string \<Rightarrow> bool" where
  "endswith s p = (length p \<le> length s \<and> drop (length s - length p) s = p)"

text \<open>
  \<^verbatim>\<open>int(s)\<close>: whitespace around the text is dropped (for \<^verbatim>\<open>int\<close> the separators 28..31 are
  not whitespace), then an optional sign and decimal digits, single underscores allowed
  between digits. \<open>None\<close> stands for the ValueError.
\<close>

definition is_space_int :: "char \<Rightarrow> bool" where
  "is_space_int c = (of_char c \<in> {9::nat, 10, 11, 12, 13, 32, 133, 160})"

fun int_digits_ok :: "string \<Rightarrow> bool" where
  "int_digits_ok [] = True"
| "int_digits_ok (c # cs) =
     (if is_digit c then int_digits_ok cs
      else c = CHR ''_'' \<and> (case cs of [] \<Rightarrow> False | d # ds \<Rightarrow> is_digit d \<and> int_digits_ok ds))"

definition py_int :: "string \<Rightarrow> int option" where
  "py_int str =
     (let t = rev (dropWhile is_space_int (rev (dropWhile is_space_int str)));
          (neg, body) = (case t of
                           [] \<Rightarrow> (False, [])
                         | c # r \<Rightarrow> if c = CHR ''-'' then (True, r)
                                    else if c = CHR ''+'' then (False, r) else (False, t))
      in case body of
           [] \<Rightarrow> None
         | c # cs \<Rightarrow>
             if is_digit c \<and> int_digits_ok cs
             then (let n = int (nat_of_digits 0 (filter (\<lambda>x. x \<noteq> CHR ''_'') body))
                   in Some (if neg then - n else n))
             else None)"

definition bind_res :: "'e + 'a \<Rightarrow> ('a \<Rightarrow> 'e + 'b) \<Rightarrow> 'e + 'b" where
  "bind_res r f = (case r of Inl e \<Rightarrow> Inl e | Inr x \<Rightarrow> f x)"

section \<open>The billing program\<close>

subsection \<open>Configuration and the money format\<close>

definition PRODUCTS_CSV :: string where "PRODUCTS_CSV = ''products.csv''"
definition INVOICES_DIR :: string where "INVOICES_DIR = ''invoices''"

text \<open>\<^verbatim>\<open>GST_DEFAULT = Decimal("18.0")\<close> and \<^verbatim>\<open>CURRENCY_QUANT = Decimal("0.01")\<close>.\<close>

definition GST_DEFAULT :: decimal where "GST_DEFAULT = Finite False 180 (- 1)"
definition CURRENCY_QUANT :: decimal where "CURRENCY_QUANT = Finite False 1 (- 2)"

definition money :: "decimal \<Rightarrow> py_error + string" where
  "money d = bind_res (quantize d CURRENCY_QUANT) (\<lambda>q. Inr (dec_str q))"

subsection \<open>The catalog\<close>

text \<open>
  A row is what \<^verbatim>\<open>csv.DictReader\<close> yields: \<open>r k\<close> is \<^verbatim>\<open>r.get(k)\<close>, \<open>None\<close> when the column
  is missing from the header or from a short row. A file is absent (\<open>None\<close>) or holds
  a sequence of rows. The catalog is a dict, kept in insertion order.
\<close>

type_synonym row = "string \<Rightarrow> string option"

record product =
  prod_name :: string
  prod_price :: decimal

definition truthy :: "string option \<Rightarrow> bool" where
  "truthy v = (v \<noteq> None \<and> v \<noteq> Some [])"

definition py_or :: "string option \<Rightarrow> string option \<Rightarrow> string option" where
  "py_or a b = (if truthy a then a else b)"

definition row_code :: "row \<Rightarrow> string option" where
  "row_code r = py_or (r ''code'') (py_or (r ''id'') (r ''sku''))"

definition row_name :: "row \<Rightarrow> string" where
  "row_name r = (case py_or (r ''name'') (py_or (r ''product'') (Some [])) of None \<Rightarrow> [] | Some n \<Rightarrow> n)"

definition row_price :: "row \<Rightarrow> string" where
  "row_price r = (case py_or (r ''price'') (Some ''0'') of None \<Rightarrow> ''0'' | Some p \<Rightarrow> p)"

definition price_of :: "string \<Rightarrow> decimal" where
  "price_of p = (case Decimal p of Inl e \<Rightarrow> Finite False 0 0 | Inr d \<Rightarrow> d)"

fun read_rows :: "(string \<times> product) list \<Rightarrow> row list \<Rightarrow> (string \<times> product) list" where
  "read_rows products [] = products"
| "read_rows products (r # rs) =
     (case row_code r of
        None \<Rightarrow> read_rows products rs
      | Some code \<Rightarrow>
          if code = [] then read_rows products rs
          else read_rows
                 (AList.update code \<lparr>prod_name = row_name r, prod_price = price_of (row_price r)\<rparr> products)
                 rs)"

definition read_products :: "row list option \<Rightarrow> (string \<times> product) list" where
  "read_products file = (case file of None \<Rightarrow> [] | Some rows \<Rightarrow> read_rows [] rows)"

subsection \<open>Invoice numbers\<close>

text \<open>The invoices directory is absent (\<open>None\<close>) or lists its file names.\<close>

definition ensure_invoices_dir :: "string list option \<Rightarrow> string list option" where
  "ensure_invoices_dir dir = (case dir of None \<Rightarrow> Some [] | Some names \<Rightarrow> Some names)"

definition listdir :: "string list option \<Rightarrow> string list" where
  "listdir dir = (case dir of None \<Rightarrow> [] | Some names \<Rightarrow> names)"

text \<open>
  The number one file name contributes: \<^verbatim>\<open>int(fname.split("_")[1].split(".")[0])\<close> when
  the name starts with \<^verbatim>\<open>invoice_\<close> and ends with \<^verbatim>\<open>.csv\<close>; any exception skips the name.
\<close>

definition invoice_num :: "string \<Rightarrow> int option" where
  "invoice_num fname =
     (if startswith fname ''invoice_'' \<and> endswith fname ''.csv''
      then (case split CHR ''_'' fname of
              a # b # rest \<Rightarrow> (case split CHR ''.'' b of [] \<Rightarrow> None | t # ts \<Rightarrow> py_int t)
            | _ \<Rightarrow> None)
      else None)"

definition next_invoice_number :: "string list option \<Rightarrow> int \<times> string list option" where
  "next_invoice_number dir =
     (let dir' = ensure_invoices_dir dir;
          nums = List.map_filter invoice_num (listdir dir')
      in (Max (set (nums @ [0])) + 1, dir'))"

subsection \<open>The session state\<close>

text \<open>
  A cart line is the dict \<^verbatim>\<open>{code, name, price, qty, line_total}\<close>. The state holds the
  attributes of \<^verbatim>\<open>BillingApp\<close> and the part of the environment the program reads and
  writes: the products file, the invoices directory, the files written, and the
  dialogs shown. What the user has typed or selected in a widget when a handler runs
  is an argument of the handler, except the GST field, which \<^verbatim>\<open>update_totals\<close> also
  writes. A handler returns the exception it raised, if any, and the state it left:
  Tk reports an exception of a callback and the session goes on. Errors of the file
  system itself (a file that cannot be opened or decoded) are not part of the model,
  except where \<^verbatim>\<open>load_products_csv\<close> catches them; paths are kept as the program builds
  them, relative to the working directory.
\<close>

record item =
  code :: string
  name :: string
  price :: decimal
  qty :: int
  line_total :: decimal

datatype effect =
    ShowInfo string string
  | ShowWarning string string
  | ShowError string string
  | OpenBrowser string
  | OpenFolder string

datatype file_content = CsvRows "string list list" | Html string

record app =
  products_file :: "row list option"
  invoices_dir :: "string list option"
  written :: "(string \<times> file_content) list"
  effects :: "effect list"
  products :: "(string \<times> product) list"
  cart :: "item list"
  gst_percent :: decimal
  gst_var :: string
  product_listbox :: "string list"
  tree :: "string list list"
  subtotal :: decimal
  gst_total :: decimal
  cgst :: decimal
  sgst :: decimal
  grand_total :: decimal
  subtotal_label :: string
  gst_label :: string
  grand_label :: string

definition then_do ::
  "py_error option \<times> app \<Rightarrow> (app \<Rightarrow> py_error option \<times> app) \<Rightarrow> py_error option \<times> app" where
  "then_do r f = (case r of (None, a) \<Rightarrow> f a | (Some e, a) \<Rightarrow> (Some e, a))"

definition show_effect :: "effect \<Rightarrow> app \<Rightarrow> app" where
  "show_effect x a = a\<lparr>effects := effects a @ [x]\<rparr>"

subsection \<open>Totals\<close>

fun sum_line_totals :: "decimal \<Rightarrow> item list \<Rightarrow> py_error + decimal" where
  "sum_line_totals acc [] = Inr acc"
| "sum_line_totals acc (it # its) = bind_res (dec_add acc (line_total it)) (\<lambda>s. sum_line_totals s its)"

text \<open>Lines 254 to 258: the rate read from the GST field, and the text the field holds afterwards.\<close>

definition parse_gst :: "string \<Rightarrow> decimal \<times> string" where
  "parse_gst v = (case Decimal v of Inl e \<Rightarrow> (GST_DEFAULT, dec_str GST_DEFAULT) | Inr d \<Rightarrow> (d, v))"

text \<open>Lines 259 to 262: \<open>(gst_total, cgst, sgst, grand_total)\<close>.\<close>

definition gst_amounts :: "decimal \<Rightarrow> decimal \<Rightarrow> py_error + decimal \<times> decimal \<times> decimal \<times> decimal" where
  "gst_amounts st rate =
     bind_res (dec_mul st rate) (\<lambda>m.
     bind_res (dec_div m (Finite False 100 0)) (\<lambda>d.
     bind_res (quantize d CURRENCY_QUANT) (\<lambda>gt.
     bind_res (dec_div gt (Decimal_int 2)) (\<lambda>h.
     bind_res (quantize h CURRENCY_QUANT) (\<lambda>cg.
     bind_res (dec_sub gt cg) (\<lambda>sg.
     bind_res (dec_add st gt) (\<lambda>g.
     bind_res (quantize g CURRENCY_QUANT) (\<lambda>gr.
     Inr (gt, cg, sg, gr)))))))))"

definition set_labels :: "app \<Rightarrow> py_error option \<times> app" where
  "set_labels a =
     (case money (subtotal a) of
        Inl e \<Rightarrow> (Some e, a)
      | Inr s \<Rightarrow>
          let a1 = a\<lparr>subtotal_label := ''Subtotal: '' @ s\<rparr> in
          (case bind_res (money (gst_total a)) (\<lambda>g.
                bind_res (money (cgst a)) (\<lambda>c.
                bind_res (money (sgst a)) (\<lambda>s.
                Inr (''GST: '' @ g @ '' ('' @ c @ '' CGST + '' @ s @ '' SGST)'')))) of
             Inl e \<Rightarrow> (Some e, a1)
           | Inr t \<Rightarrow>
               let a2 = a1\<lparr>gst_label := t\<rparr> in
               (case money (grand_total a) of
                  Inl e \<Rightarrow> (Some e, a2)
                | Inr g \<Rightarrow> (None, a2\<lparr>grand_label := ''Grand Total: '' @ g\<rparr>))))"

definition update_totals :: "app \<Rightarrow> py_error option \<times> app" where
  "update_totals a =
     (case sum_line_totals (Finite False 0 0) (cart a) of
        Inl e \<Rightarrow> (Some e, a)
      | Inr st \<Rightarrow>
          let a1 = a\<lparr>gst_var := snd (parse_gst (gst_var a))\<rparr> in
          (case gst_amounts st (fst (parse_gst (gst_var a))) of
             Inl e \<Rightarrow> (Some e, a1)
           | Inr (gt, cg, sg, gr) \<Rightarrow>
               set_labels (a1\<lparr>subtotal := st, gst_total := gt, cgst := cg, sgst := sg, grand_total := gr\<rparr>)))"

subsection \<open>The product list and the cart view\<close>

fun listbox_fill :: "(string \<times> product) list \<Rightarrow> app \<Rightarrow> py_error option \<times> app" where
  "listbox_fill [] a = (None, a)"
| "listbox_fill (cp # ps) a =
     (case money (prod_price (snd cp)) of
        Inl e \<Rightarrow> (Some e, a)
      | Inr m \<Rightarrow>
          listbox_fill ps
            (a\<lparr>product_listbox := product_listbox a @ [fst cp @ '' | '' @ prod_name (snd cp) @ '' | '' @ m]\<rparr>))"

definition refresh_product_list :: "app \<Rightarrow> py_error option \<times> app" where
  "refresh_product_list a = listbox_fill (sort_key fst (products a)) (a\<lparr>product_listbox := []\<rparr>)"

definition item_cells :: "item \<Rightarrow> py_error + string list" where
  "item_cells it =
     bind_res (money (price it)) (\<lambda>p.
     bind_res (money (line_total it)) (\<lambda>t.
     Inr [code it, name it, p, str_int (qty it), t]))"

fun tree_fill :: "item list \<Rightarrow> app \<Rightarrow> py_error option \<times> app" where
  "tree_fill [] a = (None, a)"
| "tree_fill (it # its) a =
     (case item_cells it of
        Inl e \<Rightarrow> (Some e, a)
      | Inr r \<Rightarrow> tree_fill its (a\<lparr>tree := tree a @ [r]\<rparr>))"

definition refresh_cart :: "app \<Rightarrow> py_error option \<times> app" where
  "refresh_cart a = tree_fill (cart a) (a\<lparr>tree := []\<rparr>)"

subsection \<open>Adding, removing, clearing\<close>

text \<open>Line 209 and line 215: \<^verbatim>\<open>(price * Decimal(qty)).quantize(CURRENCY_QUANT, rounding=ROUND_HALF_UP)\<close>.\<close>

definition line_amount :: "decimal \<Rightarrow> int \<Rightarrow> py_error + decimal" where
  "line_amount p q = bind_res (dec_mul p (Decimal_int q)) (\<lambda>m. quantize m CURRENCY_QUANT)"

text \<open>
  The loop of lines 212 to 217 on the cart: \<open>None\<close> when no line has the code; otherwise
  the cart after the first such line was updated, with the exception of line 215 if
  it was raised (the quantity is then already incremented).
\<close>

fun cart_increment :: "string \<Rightarrow> int \<Rightarrow> item list \<Rightarrow> (py_error option \<times> item list) option" where
  "cart_increment c q [] = None"
| "cart_increment c q (it # its) =
     (if code it = c then
        (case line_amount (price it) (qty it + q) of
           Inl e \<Rightarrow> Some (Some e, it\<lparr>qty := qty it + q\<rparr> # its)
         | Inr t \<Rightarrow> Some (None, it\<lparr>qty := qty it + q, line_total := t\<rparr> # its))
      else (case cart_increment c q its of
              None \<Rightarrow> None
            | Some (r, its') \<Rightarrow> Some (r, it # its')))"

definition listbox_get :: "string list \<Rightarrow> nat \<Rightarrow> string" where
  "listbox_get lines i = (if i < length lines then lines ! i else [])"

definition selected_code :: "string \<Rightarrow> string" where
  "selected_code line = (case split CHR ''|'' line of [] \<Rightarrow> [] | w # ws \<Rightarrow> strip w)"

text \<open>
  \<open>sel\<close> is \<^verbatim>\<open>curselection()\<close> of the product list, \<open>qty_var\<close> the value of the quantity field
  (\<open>None\<close> when it holds no number and \<^verbatim>\<open>get()\<close> raises).
\<close>

definition add_selected_product :: "app \<Rightarrow> nat list \<Rightarrow> int option \<Rightarrow> py_error option \<times> app" where
  "add_selected_product a sel qty_var =
     (case sel of
        [] \<Rightarrow> (None, show_effect (ShowWarning ''Select product''
                 ''Please select a product from the list (double-click works).'') a)
      | idx # others \<Rightarrow>
          let c = selected_code (listbox_get (product_listbox a) idx) in
          (case map_of (products a) c of
             None \<Rightarrow> (None, a)
           | Some pr \<Rightarrow>
               (case qty_var of
                  None \<Rightarrow> (Some TclError, a)
                | Some q \<Rightarrow>
                    if q \<le> 0 then (None, show_effect (ShowWarning ''Quantity'' ''Enter quantity >= 1'') a)
                    else
                      (case line_amount (prod_price pr) q of
                         Inl e \<Rightarrow> (Some e, a)
                       | Inr t \<Rightarrow>
                           (case cart_increment c q (cart a) of
                              Some (Some e, items) \<Rightarrow> (Some e, a\<lparr>cart := items\<rparr>)
                            | Some (None, items) \<Rightarrow>
                                then_do (refresh_cart (a\<lparr>cart := items\<rparr>)) update_totals
                            | None \<Rightarrow>
                                then_do
                                  (refresh_cart
                                     (a\<lparr>cart := cart a @
                                        [\<lparr>code = c, name = prod_name pr, price = prod_price pr,
                                          qty = q, line_total = t\<rparr>]\<rparr>))
                                  update_totals)))))"




subsection \<open>Invoices\<close>

record invoice_data =
  inv_date :: string
  inv_customer_name :: string
  inv_items :: "item list"
  inv_subtotal :: decimal
  inv_gst_percent :: string
  inv_gst_total :: decimal
  inv_cgst :: decimal
  inv_sgst :: decimal
  inv_grand_total :: decimal

definition nl :: string where "nl = [CHR 0x0A]"
definition dq :: string where "dq = [CHR 0x22]"
definition sq :: string where "sq = [CHR 0x27]"

text \<open>
  A file is written as the rows given to \<^verbatim>\<open>csv.writer\<close>, or as the text of the HTML page.
  An exception while the rows are written leaves the file with the rows before it.
\<close>

fun item_rows :: "item list \<Rightarrow> string list list \<Rightarrow> py_error option \<times> string list list" where
  "item_rows [] rows = (None, rows)"
| "item_rows (it # its) rows =
     (case item_cells it of
        Inl e \<Rightarrow> (Some e, rows)
      | Inr r \<Rightarrow> item_rows its (rows @ [r]))"

definition plain_row ::
  "string list \<Rightarrow> py_error option \<times> string list list \<Rightarrow> py_error option \<times> string list list" where
  "plain_row cells r = (case r of (None, rows) \<Rightarrow> (None, rows @ [cells]) | (Some e, rows) \<Rightarrow> (Some e, rows))"

definition money_row ::
  "string \<Rightarrow> decimal \<Rightarrow> py_error option \<times> string list list \<Rightarrow> py_error option \<times> string list list" where
  "money_row label d r =
     (case r of
        (None, rows) \<Rightarrow> (case money d of Inl e \<Rightarrow> (Some e, rows) | Inr m \<Rightarrow> (None, rows @ [[label, m]]))
      | (Some e, rows) \<Rightarrow> (Some e, rows))"

definition invoice_csv_rows :: "int \<Rightarrow> invoice_data \<Rightarrow> py_error option \<times> string list list" where
  "invoice_csv_rows n d =
     money_row ''grand_total'' (inv_grand_total d)
      (money_row ''sgst'' (inv_sgst d)
       (money_row ''cgst'' (inv_cgst d)
        (money_row ''gst_total'' (inv_gst_total d)
         (plain_row [''gst_percent'', inv_gst_percent d]
          (money_row ''subtotal'' (inv_subtotal d)
           (plain_row []
            (item_rows (inv_items d)
              [[''invoice_number'', str_int n],
               [''date'', inv_date d],
               [''customer_name'', inv_customer_name d],
               [],
               [''code'', ''name'', ''price'', ''qty'', ''total'']])))))))"

definition write_invoice_file :: "string \<Rightarrow> file_content \<Rightarrow> app \<Rightarrow> app" where
  "write_invoice_file fname content a =
     a\<lparr>invoices_dir := Some (List.insert fname (listdir (invoices_dir a))),
       written := written a @ [(INVOICES_DIR @ ''/'' @ fname, content)]\<rparr>"

definition save_invoice_csv :: "int \<Rightarrow> invoice_data \<Rightarrow> app \<Rightarrow> py_error option \<times> string \<times> app" where
  "save_invoice_csv n d a =
     (let a1 = a\<lparr>invoices_dir := ensure_invoices_dir (invoices_dir a)\<rparr>;
          fname = ''invoice_'' @ str_int n @ ''.csv''
      in (fst (invoice_csv_rows n d), INVOICES_DIR @ ''/'' @ fname,
          write_invoice_file fname (CsvRows (snd (invoice_csv_rows n d))) a1))"

fun rows_html :: "item list \<Rightarrow> py_error + string" where
  "rows_html [] = Inr []"
| "rows_html (it # its) =
     bind_res (money (price it)) (\<lambda>p.
     bind_res (money (line_total it)) (\<lambda>t.
     bind_res (rows_html its) (\<lambda>r.
     Inr (''<tr><td>'' @ code it @ ''</td><td>'' @ name it @ ''</td><td align='' @ sq @ ''right'' @ sq
          @ ''>'' @ p @ ''</td><td align='' @ sq @ ''center'' @ sq @ ''>'' @ str_int (qty it)
          @ ''</td><td align='' @ sq @ ''right'' @ sq @ ''>'' @ t @ ''</td></tr>'' @ nl @ r))))"

definition invoice_html :: "int \<Rightarrow> invoice_data \<Rightarrow> string \<Rightarrow> py_error + string" where
  "invoice_html n d rows =
     bind_res (money (inv_subtotal d)) (\<lambda>m1.
     bind_res (money (inv_gst_total d)) (\<lambda>m2.
     bind_res (money (inv_cgst d)) (\<lambda>m3.
     bind_res (money (inv_sgst d)) (\<lambda>m4.
     bind_res (money (inv_grand_total d)) (\<lambda>m5.
     Inr (concat
       [nl, ''    <html>'', nl,
        ''    <head><meta charset='', dq, ''utf-8'', dq, ''><title>Invoice '', str_int n, ''</title></head>'', nl,
        ''    <body>'', nl,
        ''    <h2>Invoice #'', str_int n, ''</h2>'', nl,
        ''    <p>Date: '', inv_date d, ''</p>'', nl,
        ''    <p>Customer: '', inv_customer_name d, ''</p>'', nl,
        ''    <table border='', dq, ''1'', dq, '' cellspacing='', dq, ''0'', dq, '' cellpadding='', dq, ''6'', dq,
          '' width='', dq, ''80%'', dq, ''>'', nl,
        ''      <thead>'', nl,
        ''        <tr><th>Code</th><th>Item</th><th>Price</th><th>Qty</th><th>Line Total</th></tr>'', nl,
        ''      </thead>'', nl,
        ''      <tbody>'', nl,
        ''      '', rows, nl,
        ''      </tbody>'', nl,
        ''    </table>'', nl,
        ''    <p>Subtotal: <b>'', m1, ''</b></p>'', nl,
        ''    <p>GST ('', inv_gst_percent d, ''%): <b>'', m2, ''</b> (CGST '', m3, '' + SGST '', m4, '')</p>'', nl,
        ''    <h3>Grand Total: '', m5, ''</h3>'', nl,
        ''    <hr>'', nl,
        ''    <p>Thank you for your business!</p>'', nl,
        ''    </body>'', nl,
        ''    </html>'', nl,
        ''    '']))))))"

definition save_invoice_html :: "int \<Rightarrow> invoice_data \<Rightarrow> app \<Rightarrow> py_error option \<times> string \<times> app" where
  "save_invoice_html n d a =
     (let a1 = a\<lparr>invoices_dir := ensure_invoices_dir (invoices_dir a)\<rparr>;
          fname = ''invoice_'' @ str_int n @ ''.html''
      in case bind_res (rows_html (inv_items d)) (invoice_html n d) of
           Inl e \<Rightarrow> (Some e, INVOICES_DIR @ ''/'' @ fname, a1)
         | Inr html \<Rightarrow> (None, INVOICES_DIR @ ''/'' @ fname, write_invoice_file fname (Html html) a1))"

text \<open>
  \<open>now\<close> is the formatted time of the call, \<open>customer_entry\<close> the text of the customer field.
\<close>

definition generate_invoice :: "app \<Rightarrow> string \<Rightarrow> string \<Rightarrow> py_error option \<times> app" where
  "generate_invoice a now customer_entry =
     (if cart a = [] then
        (None, show_effect (ShowWarning ''Empty cart'' ''Add items before generating an invoice.'') a)
      else
        let inv_num = fst (next_invoice_number (invoices_dir a));
            a1 = a\<lparr>invoices_dir := snd (next_invoice_number (invoices_dir a))\<rparr>;
            d = \<lparr>inv_date = now, inv_customer_name = strip customer_entry, inv_items = cart a,
                 inv_subtotal = subtotal a, inv_gst_percent = gst_var a, inv_gst_total = gst_total a,
                 inv_cgst = cgst a, inv_sgst = sgst a, inv_grand_total = grand_total a\<rparr>
        in case save_invoice_csv inv_num d a1 of
             (Some e, csvfile, a2) \<Rightarrow> (Some e, a2)
           | (None, csvfile, a2) \<Rightarrow>
               (case save_invoice_html inv_num d a2 of
                  (Some e, htmlfile, a3) \<Rightarrow> (Some e, a3)
                | (None, htmlfile, a3) \<Rightarrow>
                    let a4 = show_effect (OpenBrowser htmlfile)
                               (show_effect
                                  (ShowInfo ''Saved''
                                     (''Invoice #'' @ str_int inv_num @ '' saved.'' @ nl @ ''CSV: '' @ csvfile
                                      @ nl @ ''HTML: '' @ htmlfile)) a3)
                    in then_do (refresh_cart (a4\<lparr>cart := []\<rparr>)) update_totals))"

text \<open>\<open>path\<close> is the answer of the save dialog, empty when the user cancels.\<close>

definition export_cart_csv :: "app \<Rightarrow> string \<Rightarrow> py_error option \<times> app" where
  "export_cart_csv a path =
     (if cart a = [] then (None, show_effect (ShowWarning ''Empty cart'' ''No items to export.'') a)
      else if path = [] then (None, a)
      else
        (case item_rows (cart a) [[''code'', ''name'', ''price'', ''qty'', ''total'']] of
           (Some e, rows) \<Rightarrow> (Some e, a\<lparr>written := written a @ [(path, CsvRows rows)]\<rparr>)
         | (None, rows) \<Rightarrow>
             (None, show_effect (ShowInfo ''Exported'' (''Cart exported to '' @ path))
                      (a\<lparr>written := written a @ [(path, CsvRows rows)]\<rparr>))))"




subsection \<open>Start, events, sessions\<close>

text \<open>
  \<^verbatim>\<open>BillingApp.__init__\<close> with \<^verbatim>\<open>create_ui\<close>. The totals read as zero until the first
  \<^verbatim>\<open>update_totals\<close>, which the constructor runs last.
\<close>

definition BillingApp_init :: "row list option \<Rightarrow> string list option \<Rightarrow> py_error option \<times> app" where
  "BillingApp_init file dir =
     then_do
       (refresh_product_list
          \<lparr>products_file = file, invoices_dir = dir, written = [],
           effects = (if read_products file = []
                      then [ShowInfo ''No products''
                              (''No products found in '' @ PRODUCTS_CSV
                               @ ''. Please create the file and restart.'')]
                      else []),
           products = read_products file, cart = [], gst_percent = GST_DEFAULT,
           gst_var = dec_str GST_DEFAULT, product_listbox = [], tree = [],
           subtotal = Finite False 0 0, gst_total = Finite False 0 0, cgst = Finite False 0 0,
           sgst = Finite False 0 0, grand_total = Finite False 0 0,
           subtotal_label = ''Subtotal: 0.00'',
           gst_label = ''GST: 0.00 (CGST 0.00 + SGST 0.00)'',
           grand_label = ''Grand Total: 0.00''\<rparr>)
       update_totals"




section \<open>The specification's formulas\<close>

text \<open>
  The specification's rounding, written from its words and compared below with what
  \<^verbatim>\<open>quantize\<close> computes: the magnitude \<open>c * 10^e\<close> rounded to hundredths, a tie going up
  (away from zero, since the sign is kept apart), counted in hundredths.
\<close>

definition half_up_cents :: "nat \<Rightarrow> int \<Rightarrow> nat" where
  "half_up_cents c e =
     (if - 2 \<le> e then c * 10 ^ nat (e + 2)
      else (2 * c + 10 ^ nat (- 2 - e)) div (2 * 10 ^ nat (- 2 - e)))"

text \<open>A number of hundredths written with exactly two digits after the point.\<close>

definition two_place_text :: "bool \<Rightarrow> nat \<Rightarrow> string" where
  "two_place_text s n =
     (if s then ''-'' else []) @ digits_of (n div 100) @ ''.''
       @ [digit_char (n div 10 mod 10), digit_char (n mod 10)]"


section \<open>An example session\<close>

text \<open>
  The catalog of one product \<^verbatim>\<open>X\<close> at 10.00; the state the constructor gives for it; and
  the state after adding \<^verbatim>\<open>X\<close> with quantity 3 at the default rate 18.0.
\<close>

definition example_rows :: "row list" where
  "example_rows = [[''code'' \<mapsto> ''X'', ''name'' \<mapsto> ''Widget'', ''price'' \<mapsto> ''10.00'']]"

definition example_app :: app where
  "example_app =
     \<lparr>products_file = Some example_rows, invoices_dir = None, written = [], effects = [],
      products = [(''X'', \<lparr>prod_name = ''Widget'', prod_price = Finite False 1000 (- 2)\<rparr>)],
      cart = [], gst_percent = GST_DEFAULT, gst_var = ''18.0'',
      product_listbox = [''X | Widget | 10.00''], tree = [],
      subtotal = Finite False 0 0, gst_total = Finite False 0 (- 2), cgst = Finite False 0 (- 2),
      sgst = Finite False 0 (- 2), grand_total = Finite False 0 (- 2),
      subtotal_label = ''Subtotal: 0.00'',
      gst_label = ''GST: 0.00 (0.00 CGST + 0.00 SGST)'',
      grand_label = ''Grand Total: 0.00''\<rparr>"


section \<open>The Totals invariants as a predicate\<close>



section \<open>Properties\<close>

subsection \<open>What the helpers leave unchanged\<close>

lemma set_labels_frame:
  "cart (snd (set_labels a)) = cart a"
  "gst_var (snd (set_labels a)) = gst_var a"
  "products (snd (set_labels a)) = products a"
  "subtotal (snd (set_labels a)) = subtotal a"
  "gst_total (snd (set_labels a)) = gst_total a"
  "cgst (snd (set_labels a)) = cgst a"
  "sgst (snd (set_labels a)) = sgst a"
  "grand_total (snd (set_labels a)) = grand_total a"
  "invoices_dir (snd (set_labels a)) = invoices_dir a"
  "written (snd (set_labels a)) = written a"
  "effects (snd (set_labels a)) = effects a"
  "products_file (snd (set_labels a)) = products_file a"
  "product_listbox (snd (set_labels a)) = product_listbox a"
  by (simp_all add: set_labels_def Let_def split: sum.splits)

lemma update_totals_frame:
  "cart (snd (update_totals a)) = cart a"
  "products (snd (update_totals a)) = products a"
  "invoices_dir (snd (update_totals a)) = invoices_dir a"
  "written (snd (update_totals a)) = written a"
  "effects (snd (update_totals a)) = effects a"
  "products_file (snd (update_totals a)) = products_file a"
  "product_listbox (snd (update_totals a)) = product_listbox a"
  by (simp_all add: update_totals_def Let_def set_labels_frame split: sum.splits prod.splits)


lemma listbox_fill_frame:
  "cart (snd (listbox_fill xs a)) = cart a"
  "products (snd (listbox_fill xs a)) = products a"
  "invoices_dir (snd (listbox_fill xs a)) = invoices_dir a"
  "written (snd (listbox_fill xs a)) = written a"
  "effects (snd (listbox_fill xs a)) = effects a"
  "products_file (snd (listbox_fill xs a)) = products_file a"
  "gst_var (snd (listbox_fill xs a)) = gst_var a"
  "subtotal (snd (listbox_fill xs a)) = subtotal a"
  "gst_total (snd (listbox_fill xs a)) = gst_total a"
  "cgst (snd (listbox_fill xs a)) = cgst a"
  "sgst (snd (listbox_fill xs a)) = sgst a"
  "grand_total (snd (listbox_fill xs a)) = grand_total a"
  by (induction xs arbitrary: a; simp split: sum.splits)+

lemma then_do_cart:
  assumes "\<And>b. cart (snd (f b)) = cart b"
  shows "cart (snd (then_do r f)) = cart (snd r)"
  using assms by (cases r) (auto simp: then_do_def split: option.splits)

lemma init_cart: "cart (snd (BillingApp_init file dir)) = []"
  by (simp add: BillingApp_init_def then_do_cart update_totals_frame refresh_product_list_def listbox_fill_frame)

subsection \<open>Empty cart\<close>

text \<open>
  C8. When the cart is empty, \<^verbatim>\<open>generate_invoice\<close> and \<^verbatim>\<open>export_cart_csv\<close> only show a
  warning: they return normally, the invoices directory is not touched (no number is
  taken, the directory is not even created), no file is written, and the cart, the
  totals and every other part of the state are as before.
\<close>

theorem empty_cart_rejected:
  "cart a = [] \<Longrightarrow>
     generate_invoice a now customer =
       (None, a\<lparr>effects := effects a @ [ShowWarning ''Empty cart'' ''Add items before generating an invoice.'']\<rparr>)
   \<and> export_cart_csv a path =
       (None, a\<lparr>effects := effects a @ [ShowWarning ''Empty cart'' ''No items to export.'']\<rparr>)
   \<and> (\<forall>a'. a' = snd (generate_invoice a now customer) \<or> a' = snd (export_cart_csv a path) \<longrightarrow>
          invoices_dir a' = invoices_dir a \<and> written a' = written a \<and> cart a' = cart a
        \<and> subtotal a' = subtotal a \<and> gst_total a' = gst_total a \<and> cgst a' = cgst a
        \<and> sgst a' = sgst a \<and> grand_total a' = grand_total a \<and> gst_var a' = gst_var a
        \<and> products a' = products a \<and> (\<exists>t m. effects a' = effects a @ [ShowWarning t m]))"
  by (auto simp: generate_invoice_def export_cart_csv_def show_effect_def)

theorem empty_cart_rejected_witness:
  "cart (snd (BillingApp_init None None)) = []
   \<and> generate_invoice (snd (BillingApp_init None None)) ''2024-05-01 10:00:00'' ''Asha'' =
       (None, (snd (BillingApp_init None None))
          \<lparr>effects := effects (snd (BillingApp_init None None))
             @ [ShowWarning ''Empty cart'' ''Add items before generating an invoice.'']\<rparr>)
   \<and> export_cart_csv (snd (BillingApp_init None None)) ''cart.csv'' =
       (None, (snd (BillingApp_init None None))
          \<lparr>effects := effects (snd (BillingApp_init None None))
             @ [ShowWarning ''Empty cart'' ''No items to export.'']\<rparr>)"
  using empty_cart_rejected [OF init_cart, of None None "''2024-05-01 10:00:00''" "''Asha''" "''cart.csv''"] init_cart [of None None]
  by simp

subsection \<open>Invoice numbers\<close>

lemma next_invoice_number_eq:
  "next_invoice_number dir =
     (Max (insert 0 (set (List.map_filter invoice_num (listdir dir)))) + 1, Some (listdir dir))"
  by (cases dir) (simp_all add: next_invoice_number_def ensure_invoices_dir_def listdir_def Let_def)

lemma map_filter_append: "List.map_filter f (xs @ ys) = List.map_filter f xs @ List.map_filter f ys"
  by (simp add: List.map_filter_def)

lemma map_filter_skip: "f x = None \<Longrightarrow> List.map_filter f (x # xs) = List.map_filter f xs"
  by (simp add: List.map_filter_def)

text \<open>
  C10. For every state of the invoices directory \<^verbatim>\<open>next_invoice_number\<close> returns at least 1:
  the list whose maximum is taken always holds 0. A directory whose matching names carry
  -5 and 0 gives 1.
\<close>

theorem next_invoice_number_ge_1:
  "1 \<le> fst (next_invoice_number dir)
   \<and> fst (next_invoice_number (Some [''invoice_-5.csv'', ''invoice_0.csv''])) = 1"
proof -
  have "0 \<le> Max (insert 0 (set (List.map_filter invoice_num (listdir dir))))"
    by (rule Max_ge) simp_all
  moreover have "List.map_filter invoice_num [''invoice_-5.csv'', ''invoice_0.csv''] = [- 5, 0]"
    by code_simp
  ultimately show ?thesis
    by (simp add: next_invoice_number_eq listdir_def)
qed

text \<open>
  C6, as stated, fails: the result is not always the largest embedded number plus one.
  With the single file \<^verbatim>\<open>invoice_-5.csv\<close> the embedded numbers are \<open>[-5]\<close>, their maximum
  plus one is -4, and the function returns 1.
\<close>

theorem next_invoice_number_max_counterexample:
  "List.map_filter invoice_num (listdir (Some [''invoice_-5.csv''])) = [- 5]
   \<and> fst (next_invoice_number (Some [''invoice_-5.csv''])) = 1
   \<and> Max (set [- 5 :: int]) + 1 = - 4"
proof -
  have "List.map_filter invoice_num [''invoice_-5.csv''] = [- 5]"
    by code_simp
  then show ?thesis
    by (simp add: next_invoice_number_eq listdir_def)
qed

text \<open>
  C6, amended. \<^verbatim>\<open>next_invoice_number\<close> returns 1 when no file name yields a number, and
  otherwise one more than the largest number found, or 1 if that number is negative; the
  directory is created when absent and otherwise left as it is; a name that yields no
  number (it does not match, or \<^verbatim>\<open>int\<close> fails on its token) does not change the result;
  with the files numbered 1, 2 and 5 the result is 6.
\<close>

theorem next_invoice_number_floor:
  "fst (next_invoice_number dir) =
     (if List.map_filter invoice_num (listdir dir) = [] then 1
      else max 0 (Max (set (List.map_filter invoice_num (listdir dir)))) + 1)
   \<and> snd (next_invoice_number dir) = Some (listdir dir)
   \<and> next_invoice_number None = (1, Some [])
   \<and> next_invoice_number (Some []) = (1, Some [])
   \<and> (invoice_num f = None \<longrightarrow>
        fst (next_invoice_number (Some (xs @ f # ys))) = fst (next_invoice_number (Some (xs @ ys))))
   \<and> fst (next_invoice_number (Some [''invoice_1.csv'', ''invoice_2.csv'', ''invoice_5.csv''])) = 6"
proof -
  let ?ids = "List.map_filter invoice_num (listdir dir)"
  have a: "fst (next_invoice_number dir) = (if ?ids = [] then 1 else max 0 (Max (set ?ids)) + 1)"
  proof (cases "?ids = []")
    case True
    then show ?thesis by (simp add: next_invoice_number_eq)
  next
    case False
    then have "Max (insert 0 (set ?ids)) = max 0 (Max (set ?ids))"
      by (simp add: Max_insert)
    with False show ?thesis by (simp add: next_invoice_number_eq)
  qed
  have b: "invoice_num f = None \<longrightarrow>
        fst (next_invoice_number (Some (xs @ f # ys))) = fst (next_invoice_number (Some (xs @ ys)))"
    by (simp add: next_invoice_number_eq listdir_def map_filter_append map_filter_skip)
  have c: "List.map_filter invoice_num [''invoice_1.csv'', ''invoice_2.csv'', ''invoice_5.csv''] = [1, 2, 5]"
    by code_simp
  have d: "fst (next_invoice_number (Some [''invoice_1.csv'', ''invoice_2.csv'', ''invoice_5.csv''])) = 6"
    by (simp add: next_invoice_number_eq listdir_def c del: map_filter_simps)
  have e: "next_invoice_number None = (1, Some [])" "next_invoice_number (Some []) = (1, Some [])"
    by (simp_all add: next_invoice_number_eq listdir_def List.map_filter_def)
  show ?thesis
    using a b d e by (simp add: next_invoice_number_eq)
qed

theorem next_invoice_number_floor_witness:
  "invoice_num ''invoice_backup.csv'' = None
   \<and> fst (next_invoice_number (Some ([''invoice_1.csv''] @ ''invoice_backup.csv'' # [''invoice_2.csv''])))
     = fst (next_invoice_number (Some ([''invoice_1.csv''] @ [''invoice_2.csv''])))"
proof -
  have n: "invoice_num ''invoice_backup.csv'' = None"
    by code_simp
  show ?thesis
    using next_invoice_number_floor [of None "''invoice_backup.csv''" "[''invoice_1.csv'']" "[''invoice_2.csv'']"] n
    by simp
qed

subsection \<open>The catalog\<close>

text \<open>Facts for evaluating the string conversions on literals.\<close>

lemmas dec_eval = Decimal_def strip_def is_space_def lower_def parse_number_def parse_exponent_def
  is_digit_def digit_val_def ndigits_def digits_of.simps MAX_EMAX_def MIN_ETINY_def Let_def
  digit_char_def








subsection \<open>The money format\<close>

lemma digits_of_nonempty: "digits_of n \<noteq> []"
  by (subst digits_of.simps) simp

lemma ndigits_pos: "0 < ndigits n"
  by (simp add: ndigits_def digits_of_nonempty)

lemma ndigits_small: "n < 10 \<Longrightarrow> ndigits n = 1"
  by (simp add: ndigits_def digits_of.simps)

lemma ndigits_step: "10 \<le> n \<Longrightarrow> ndigits n = Suc (ndigits (n div 10))"
  by (simp add: ndigits_def digits_of.simps [of n])

lemma ndigits_le_iff: "0 < k \<Longrightarrow> ndigits n \<le> k \<longleftrightarrow> n < 10 ^ k"
proof (induction k arbitrary: n)
  case 0
  then show ?case by simp
next
  case (Suc k)
  show ?case
  proof (cases "n < 10")
    case True
    have "(10::nat) \<le> 10 ^ Suc k" by simp
    with True have "n < 10 ^ Suc k" by linarith
    with True show ?thesis by (simp add: ndigits_small)
  next
    case False
    then have st: "ndigits n = Suc (ndigits (n div 10))" by (simp add: ndigits_step)
    show ?thesis
    proof (cases "k = 0")
      case True
      with False st ndigits_pos [of "n div 10"] show ?thesis by simp
    next
      case k: False
      then have "ndigits (n div 10) \<le> k \<longleftrightarrow> n div 10 < 10 ^ k" using Suc.IH by simp
      moreover have "n div 10 < 10 ^ k \<longleftrightarrow> n < 10 ^ Suc k"
        by (simp add: less_mult_imp_div_less div_less_iff_less_mult mult.commute)
      ultimately show ?thesis using st by simp
    qed
  qed
qed

lemma ndigits_lower: "0 < n \<Longrightarrow> 10 ^ (ndigits n - 1) \<le> n"
proof (cases "ndigits n = 1")
  case True
  assume "0 < n" with True show ?thesis by simp
next
  case False
  assume "0 < n"
  from False ndigits_pos [of n] have k: "0 < ndigits n - 1" by linarith
  have "\<not> ndigits n \<le> ndigits n - 1" using ndigits_pos [of n] by linarith
  then have "\<not> n < 10 ^ (ndigits n - 1)" using ndigits_le_iff [OF k, of n] by simp
  then show ?thesis by simp
qed



lemma digits_of_split100:
  "100 \<le> n \<Longrightarrow> digits_of n = digits_of (n div 100) @ [digit_char (n div 10 mod 10), digit_char (n mod 10)]"
proof -
  assume h: "100 \<le> n"
  then have a: "\<not> n < 10" and b: "\<not> n div 10 < 10" by simp_all
  have c: "n div 10 div 10 = n div 100" by (simp add: div_mult2_eq)
  show ?thesis
    by (subst digits_of.simps [of n], simp add: a, subst digits_of.simps [of "n div 10"], simp add: b c)
qed

lemma round_half_up_eq: "round_half_up c k = (2 * c + 10 ^ k) div (2 * 10 ^ k)"
proof -
  define m :: nat where "m = 10 ^ k"
  have m: "0 < m" by (simp add: m_def)
  define q r where "q = c div m" and "r = c mod m"
  have c: "c = q * m + r" and r: "r < m" using m by (simp_all add: q_def r_def)
  have "(2 * c + m) div (2 * m) = q + (2 * r + m) div (2 * m)"
  proof -
    have "2 * c + m = (2 * r + m) + q * (2 * m)" by (simp add: c algebra_simps)
    moreover have "((2 * r + m) + q * (2 * m)) div (2 * m) = q + (2 * r + m) div (2 * m)"
      using m div_mult_self1 [of "2 * m" "2 * r + m" q] by simp
    ultimately show ?thesis by (simp only:)
  qed
  moreover have "(2 * r + m) div (2 * m) = (if m \<le> 2 * r then 1 else 0)"
  proof (cases "m \<le> 2 * r")
    case True
    have "(2 * r + m) div (2 * m) = 1"
    proof (rule Euclidean_Rings.div_nat_eqI)
      show "2 * m * 1 \<le> 2 * r + m" using True by simp
      show "2 * r + m < 2 * m * Suc 1" using r by simp
    qed
    with True show ?thesis by simp
  next
    case False
    then have "2 * r + m < 2 * m" by simp
    with False show ?thesis by simp
  qed
  ultimately show ?thesis
    by (simp add: round_half_up_def q_def r_def m_def)
qed

lemma rescale_cents: "rescale c e (- 2) = half_up_cents c e"
proof (cases "- 2 \<le> e")
  case True
  then have "nat (e - - 2) = nat (e + 2)" by simp
  with True show ?thesis by (simp add: rescale_def half_up_cents_def)
next
  case False
  then show ?thesis by (simp add: rescale_def half_up_cents_def round_half_up_eq)
qed

lemma cents_zero: "half_up_cents 0 e = 0"
  by (simp add: half_up_cents_def)

lemma cents_large:
  assumes c: "0 < c" and big: "26 < e + int (ndigits c)"
  shows "10 ^ 28 \<le> half_up_cents c e"
proof (cases "- 2 \<le> e")
  case True
  have "28 \<le> ndigits c - 1 + nat (e + 2)"
    using True big ndigits_pos [of c] by linarith
  then have "(10::nat) ^ 28 \<le> 10 ^ (ndigits c - 1 + nat (e + 2))"
    by (intro power_increasing; simp)
  also have "\<dots> = 10 ^ (ndigits c - 1) * 10 ^ nat (e + 2)" by (simp add: power_add)
  also have "\<dots> \<le> c * 10 ^ nat (e + 2)"
    by (rule mult_le_mono1) (rule ndigits_lower [OF c])
  finally show ?thesis using True by (simp add: half_up_cents_def)
next
  case False
  define k where "k = nat (- 2 - e)"
  have kk: "k + 28 \<le> ndigits c - 1" using False big by (simp add: k_def)
  have "(10::nat) ^ (k + 28) \<le> 10 ^ (ndigits c - 1)"
    using kk by (intro power_increasing; simp)
  also have "\<dots> \<le> c" by (rule ndigits_lower [OF c])
  finally have "10 ^ 28 * (2 * 10 ^ k) \<le> 2 * c + 10 ^ k"
    by (simp add: power_add)
  then have "(10 ^ 28 * (2 * 10 ^ k)) div (2 * 10 ^ k) \<le> (2 * c + 10 ^ k) div (2 * 10 ^ k)"
    by (rule div_le_mono)
  then have "10 ^ 28 \<le> (2 * c + 10 ^ k) div (2 * 10 ^ k)" by simp
  with False show ?thesis by (simp add: half_up_cents_def k_def)
qed

lemma dec_fix_plain:
  "c < 10 ^ 28 \<Longrightarrow> dec_fix s c (- 2) = Inr (Finite s c (- 2))"
proof (cases "c = 0")
  case True
  then show ?thesis by (simp add: dec_fix_def Etiny_def Emin_def Emax_def prec_def)
next
  case False
  assume "c < 10 ^ 28"
  then have "ndigits c \<le> 28" using ndigits_le_iff [of 28 c] by simp
  with False show ?thesis
    by (simp add: dec_fix_def Etiny_def Emin_def Emax_def Etop_def prec_def Let_def)
qed

lemma quantize_cents:
  "quantize (Finite s c e) CURRENCY_QUANT =
     (if half_up_cents c e < 10 ^ 28 then Inr (Finite s (half_up_cents c e) (- 2)) else Inl InvalidOperation)"
proof (cases "c = 0")
  case True
  then show ?thesis
    by (simp add: CURRENCY_QUANT_def cents_zero dec_fix_plain Etiny_def Emin_def Emax_def prec_def)
next
  case c: False
  show ?thesis
  proof (cases "26 < e + int (ndigits c)")
    case True
    then have "10 ^ 28 \<le> half_up_cents c e" using c cents_large by simp
    then have "\<not> half_up_cents c e < 10 ^ 28" by simp
    with c True show ?thesis
      by (simp add: CURRENCY_QUANT_def Etiny_def Emin_def Emax_def prec_def)
  next
    case False
    have nd: "int (ndigits (half_up_cents c e)) \<le> 28 \<longleftrightarrow> half_up_cents c e < 10 ^ 28"
      using ndigits_le_iff [of 28 "half_up_cents c e"] by simp
    show ?thesis
    proof (cases "half_up_cents c e < 10 ^ 28")
      case True
      with c False nd show ?thesis
        by (simp add: CURRENCY_QUANT_def Etiny_def Emin_def Emax_def prec_def Let_def rescale_cents dec_fix_plain)
    next
      case big: False
      with c False nd show ?thesis
        by (simp add: CURRENCY_QUANT_def Etiny_def Emin_def Emax_def prec_def Let_def rescale_cents)
    qed
  qed
qed

lemma dec_str_two_places: "dec_str (Finite s n (- 2)) = two_place_text s n"
proof -
  consider "n < 10" | "10 \<le> n" "n < 100" | "100 \<le> n" by linarith
  then show ?thesis
  proof cases
    case 1
    then show ?thesis
      by (simp add: two_place_text_def sign_str_def digits_of.simps [of n] digits_of.simps [of 0] Let_def
            digit_char_def)
  next
    case 2
    then have "n div 10 < 10" by simp
    with 2 show ?thesis
      by (simp add: two_place_text_def sign_str_def digits_of.simps [of n] digits_of.simps [of "n div 10"]
            digits_of.simps [of 0] Let_def digit_char_def)
  next
    case 3
    then have len: "length (digits_of n) = length (digits_of (n div 100)) + 2"
      by (simp add: digits_of_split100)
    have pos: "0 < length (digits_of (n div 100))"
      using digits_of_nonempty [of "n div 100"] by simp
    from 3 have sp: "digits_of n = digits_of (n div 100) @ [digit_char (n div 10 mod 10), digit_char (n mod 10)]"
      by (rule digits_of_split100)
    show ?thesis
      using pos by (simp add: two_place_text_def sign_str_def Let_def len) (simp add: sp)
  qed
qed

lemma money_Finite:
  "money (Finite s c e) =
     (if half_up_cents c e < 10 ^ 28 then Inr (two_place_text s (half_up_cents c e)) else Inl InvalidOperation)"
  by (simp add: money_def bind_res_def quantize_cents dec_str_two_places del: dec_str.simps)






subsection \<open>Totals\<close>

text \<open>Facts for evaluating the arithmetic and the handlers on literals.\<close>

lemma div_strip_eval:
  "div_strip n c e = (if n = 0 \<or> c mod 10 \<noteq> 0 then (c, e) else div_strip (n - 1) (c div 10) (e + 1))"
  by (cases n) simp_all

lemmas arith_eval = dec_fix_def round_half_even_def round_half_up_def rescale_def sval_def
  Decimal_int_def CURRENCY_QUANT_def GST_DEFAULT_def prec_def Emax_def Emin_def Etiny_def Etop_def
  bind_res_def div_strip_eval

lemmas app_eval = update_totals_def set_labels_def parse_gst_def gst_amounts_def money_Finite
  half_up_cents_def two_place_text_def then_do_def refresh_cart_def item_cells_def str_int_def
  refresh_product_list_def show_effect_def line_amount_def listbox_get_def selected_code_def
  sign_str_def










subsection \<open>The tax split\<close>
















subsection \<open>The cart\<close>





















text \<open>
  An add whose line 215 raises: for a line of one unit at 5E+25 the new line total would
  need 29 digits, \<^verbatim>\<open>quantize\<close> raises InvalidOperation, and the quantity is already 2.
\<close>

lemma big_line_raises:
  "add_selected_product
     (example_app
       \<lparr>products := [(''X'', \<lparr>prod_name = ''Widget'', prod_price = Finite False 5 25\<rparr>)],
        cart := [\<lparr>code = ''X'', name = ''Widget'', price = Finite False 5 25, qty = 1,
                  line_total = Finite False 5000000000000000000000000000 (- 2)\<rparr>]\<rparr>) [0] (Some 1)
   = (Some InvalidOperation,
      example_app
       \<lparr>products := [(''X'', \<lparr>prod_name = ''Widget'', prod_price = Finite False 5 25\<rparr>)],
        cart := [\<lparr>code = ''X'', name = ''Widget'', price = Finite False 5 25, qty = 2,
                  line_total = Finite False 5000000000000000000000000000 (- 2)\<rparr>]\<rparr>)"
  by (simp add: add_selected_product_def example_app_def app_eval arith_eval dec_eval)






subsection \<open>Rejected adds\<close>

text \<open>
  What \<^verbatim>\<open>add_selected_product\<close> does when it rejects: with nothing selected, and with a
  quantity of 0 or less for a known product, it shows a warning and changes nothing
  else; with a code that is not in the catalog it returns at once, so the state,
  dialogs included, is exactly as before.
\<close>

lemma add_rejected_unchanged:
  "(sel = [] \<longrightarrow>
      add_selected_product a sel qv =
        (None, a\<lparr>effects := effects a @ [ShowWarning ''Select product''
                  ''Please select a product from the list (double-click works).'']\<rparr>))
   \<and> (map_of (products a) (selected_code (listbox_get (product_listbox a) idx)) = None \<longrightarrow>
        add_selected_product a (idx # sel) qv = (None, a))
   \<and> (map_of (products a) (selected_code (listbox_get (product_listbox a) idx)) = Some pr \<and> q \<le> 0 \<longrightarrow>
        add_selected_product a (idx # sel) (Some q) =
          (None, a\<lparr>effects := effects a @ [ShowWarning ''Quantity'' ''Enter quantity >= 1'']\<rparr>))"
  by (simp add: add_selected_product_def show_effect_def Let_def)

text \<open>
  C5 at a catalog the program can load: the row \<^verbatim>\<open>code = "A "\<close> (a space after the code),
  \<^verbatim>\<open>Widget\<close>, 10.00. The product is listed as \<^verbatim>\<open>A  | Widget | 10.00\<close>; the handler reads the
  code \<^verbatim>\<open>A\<close> back from that line, finds no such key, and returns: the add is rejected and
  no dialog is shown.
\<close>

theorem unknown_code_silent:
  "fst (BillingApp_init (Some [[''code'' \<mapsto> ''A '', ''name'' \<mapsto> ''Widget'', ''price'' \<mapsto> ''10.00'']]) None) = None
   \<and> map fst (products (snd (BillingApp_init
         (Some [[''code'' \<mapsto> ''A '', ''name'' \<mapsto> ''Widget'', ''price'' \<mapsto> ''10.00'']]) None))) = [''A '']
   \<and> product_listbox (snd (BillingApp_init
         (Some [[''code'' \<mapsto> ''A '', ''name'' \<mapsto> ''Widget'', ''price'' \<mapsto> ''10.00'']]) None))
       = [''A  | Widget | 10.00'']
   \<and> selected_code ''A  | Widget | 10.00'' = ''A''
   \<and> add_selected_product
         (snd (BillingApp_init (Some [[''code'' \<mapsto> ''A '', ''name'' \<mapsto> ''Widget'', ''price'' \<mapsto> ''10.00'']]) None))
         [0] (Some 1)
       = (None, snd (BillingApp_init
                  (Some [[''code'' \<mapsto> ''A '', ''name'' \<mapsto> ''Widget'', ''price'' \<mapsto> ''10.00'']]) None))"
proof -
  let ?rows = "[[''code'' \<mapsto> ''A '', ''name'' \<mapsto> ''Widget'', ''price'' \<mapsto> ''10.00'']]"
  have p: "read_products (Some ?rows) = [(''A '', \<lparr>prod_name = ''Widget'', prod_price = Finite False 1000 (- 2)\<rparr>)]"
    by (simp add: read_products_def row_code_def row_name_def row_price_def py_or_def
        truthy_def price_of_def dec_eval)
  have i: "BillingApp_init (Some ?rows) None =
      (None, example_app\<lparr>products_file := Some ?rows,
                products := [(''A '', \<lparr>prod_name = ''Widget'', prod_price = Finite False 1000 (- 2)\<rparr>)],
                product_listbox := [''A  | Widget | 10.00'']\<rparr>)"
    by (simp add: BillingApp_init_def p)
       (simp add: example_app_def app_eval arith_eval dec_eval PRODUCTS_CSV_def)
  have s: "selected_code ''A  | Widget | 10.00'' = ''A''"
    by (simp add: selected_code_def strip_def is_space_def)
  show ?thesis
    unfolding i
    by (simp add: s add_selected_product_def listbox_get_def example_app_def)
qed

subsection \<open>When the Totals are recomputed\<close>















text \<open>
  A handler that raises midway leaves what it had done: with \<^verbatim>\<open>Infinity\<close> in the GST field
  (a Decimal for \<^verbatim>\<open>Decimal(str)\<close>, so no fallback), an add puts the line into the cart and
  the view, and \<^verbatim>\<open>update_totals\<close> then raises InvalidOperation before it stores anything.
\<close>

lemma infinite_rate_raises:
  "Decimal ''Infinity'' = Inr (Infinity False)
   \<and> add_selected_product (example_app\<lparr>gst_var := ''Infinity''\<rparr>) [0] (Some 3) =
       (Some InvalidOperation,
        example_app
         \<lparr>gst_var := ''Infinity'',
          cart := [\<lparr>code = ''X'', name = ''Widget'', price = Finite False 1000 (- 2), qty = 3,
                    line_total = Finite False 3000 (- 2)\<rparr>],
          tree := [[''X'', ''Widget'', ''10.00'', ''3'', ''30.00'']]\<rparr>)"
  by (simp add: add_selected_product_def example_app_def app_eval arith_eval dec_eval)




end
